theory Spec2Isabelle
  imports Complex_Main
begin

section \<open>The response types of the frontend (page.tsx)\<close>

text \<open>
  A JavaScript \<^verbatim>\<open>number\<close> that arrives in a JSON body is a finite double, hence a
  rational number; comparisons and \<^verbatim>\<open>Math.round\<close> on a single such number are exact.
  The TypeScript interfaces declare every field as required, but the component reads
  them through \<^verbatim>\<open>?.\<close>, \<^verbatim>\<open>??\<close> and \<^verbatim>\<open>||\<close>, so every field that is read that way
  is an option here: \<open>None\<close> stands for both \<^verbatim>\<open>undefined\<close> and \<^verbatim>\<open>null\<close>.
\<close>

type_synonym number = rat

record VisualDetails =
  engagement :: "number option"
  energy :: "number option"

record VisualResult =
  visual_score :: "number option"
  visual_details :: "VisualDetails option"

record AudioDetails =
  pace_bpm :: "number option"
  silence_ratio :: "number option"

record AudioResult =
  prosody_score :: "number option"
  audio_details :: "AudioDetails option"

record ContentResult =
  content_score :: "number option"
  accuracy_score :: "number option"
  structure_score :: "number option"
  key_strengths :: "string list option"
  missing_concepts :: "string list option"

record PipelineResults =
  visual :: "VisualResult option"
  audio :: "AudioResult option"
  content :: "ContentResult option"

record AnalysisResult =
  overall_score :: number
  pipelines :: "PipelineResults option"
  transcript :: "string option"

section \<open>Component state and the request\<close>

text \<open>
  \<^verbatim>\<open>File.size\<close> is a byte count, an integer below \<open>2 ^ 53\<close>; dividing it by
  \<open>1024 * 1024\<close> is exact in double arithmetic, so the size in MB is the rational
  \<open>size / 2 ^ 20\<close>.
\<close>

record File =
  file_name :: string
  file_size :: nat

record HomeState =
  file' :: "File option"
  previewUrl :: "string option"
  loading :: bool
  result :: "AnalysisResult option"
  error :: "string option"

datatype FormValue = FileValue File | StringValue string

record Request =
  req_url :: string
  req_formData :: "(string \<times> FormValue) list"
  req_headers :: "(string \<times> string) list"
  req_timeout :: nat

text \<open>
  What \<^verbatim>\<open>await axios.post(...)\<close> hands to the code. The promise is fulfilled with a
  response whose \<^verbatim>\<open>data\<close> is stored as it is: an object (\<open>Resolved\<close>), or a falsy
  body such as \<^verbatim>\<open>null\<close> or the empty string (\<open>ResolvedEmpty\<close>), after which
  \<^verbatim>\<open>if (result)\<close> fails just as it does for \<^verbatim>\<open>null\<close>. Or the promise is rejected with
  an error that carries a response (\<^verbatim>\<open>err.response.status\<close>,
  \<^verbatim>\<open>err.response.data?.detail\<close>), or only the request (\<^verbatim>\<open>err.request\<close>: no answer,
  which includes the 5 minute timeout), or neither (\<^verbatim>\<open>err.message\<close>). The code never
  reads the status of a fulfilled response.
\<close>

datatype AxiosError =
    WithResponse nat "string option"
  | WithRequest
  | OtherError string

datatype AxiosOutcome = Resolved AnalysisResult | ResolvedEmpty | Rejected AxiosError

text \<open>
  What the network hands to axios: an HTTP response, no answer, or a failure before the
  request left. A response is its status and its JSON body, the body as the two places
  that read it see it: \<^verbatim>\<open>response.data\<close> (absent when falsy) and
  \<^verbatim>\<open>err.response.data?.detail\<close>.
\<close>

record HttpResponse =
  resp_status :: nat
  resp_data :: "AnalysisResult option"
  resp_detail :: "string option"

datatype Transport = Answered HttpResponse | Unanswered | NotSent string

text \<open>
  The call at page.tsx 75-78 passes no \<^verbatim>\<open>validateStatus\<close>, so axios applies its
  default: a status from 200 to 299 fulfils the promise, every other status rejects it
  with \<^verbatim>\<open>err.response\<close> set.
\<close>

definition validateStatus :: "nat \<Rightarrow> bool" where
  "validateStatus status = (200 \<le> status \<and> status < 300)"

definition axios_post :: "Transport \<Rightarrow> AxiosOutcome" where
  "axios_post tr =
     (case tr of
        Answered r \<Rightarrow>
          if validateStatus (resp_status r)
          then (case resp_data r of Some d \<Rightarrow> Resolved d | None \<Rightarrow> ResolvedEmpty)
          else Rejected (WithResponse (resp_status r) (resp_detail r))
      | Unanswered \<Rightarrow> Rejected WithRequest
      | NotSent m \<Rightarrow> Rejected (OtherError m))"

section \<open>Strings\<close>

text \<open>The two pictographs that open the messages, as their UTF-8 bytes.\<close>

definition warning_sign :: string where
  "warning_sign = [CHR 0xE2, CHR 0x9A, CHR 0xA0, CHR 0xEF, CHR 0xB8, CHR 0x8F]"

definition cross_mark :: string where
  "cross_mark = [CHR 0xE2, CHR 0x9D, CHR 0x8C]"

definition digit_char :: "nat \<Rightarrow> char" where
  "digit_char d = char_of (48 + d)"

text \<open>Decimal rendering of a non-negative integer, as a template literal does.\<close>

function show_nat :: "nat \<Rightarrow> string" where
  "show_nat n = (if n < 10 then [digit_char n] else show_nat (n div 10) @ [digit_char (n mod 10)])"
  by pat_completeness auto
termination
  by (relation "measure (\<lambda>n. n)") auto

declare show_nat.simps [simp del]

text \<open>
  \<^verbatim>\<open>x.toFixed(1)\<close> for \<open>x \<ge> 0\<close>: the integer \<open>n\<close> with \<open>n / 10\<close> closest to \<open>x\<close>,
  the larger one on a tie, printed with one digit after the point.
\<close>

definition toFixed1 :: "rat \<Rightarrow> string" where
  "toFixed1 x = (let n = nat \<lfloor>x * 10 + 1 / 2\<rfloor>
                 in show_nat (n div 10) @ ''.'' @ show_nat (n mod 10))"

text \<open>JavaScript truthiness of an optional string: absent and empty are falsy.\<close>

definition or_else :: "string option \<Rightarrow> string \<Rightarrow> string" where
  "or_else v d = (case v of None \<Rightarrow> d | Some t \<Rightarrow> if t = [] then d else t)"

section \<open>handleAnalyze (page.tsx)\<close>

definition MAX_FILE_SIZE_MB :: nat where
  "MAX_FILE_SIZE_MB = 30"

definition fileSizeMB :: "File \<Rightarrow> rat" where
  "fileSizeMB f = of_nat (file_size f) / (1024 * 1024)"

definition too_large_message :: "File \<Rightarrow> string" where
  "too_large_message f =
     warning_sign @ '' File is too large ('' @ toFixed1 (fileSizeMB f) @ '' MB). The limit is ''
       @ show_nat MAX_FILE_SIZE_MB @ ''MB. Please trim or compress the video.''"

definition backendUrl :: "string option \<Rightarrow> string" where
  "backendUrl env = or_else env ''http://localhost:8000''"

definition analyze_request :: "string option \<Rightarrow> File \<Rightarrow> Request" where
  "analyze_request env f =
     \<lparr> req_url = backendUrl env @ ''/analyze'',
       req_formData = [(''file'', FileValue f), (''topic'', StringValue ''General Teaching'')],
       req_headers = [(''Content-Type'', ''multipart/form-data'')],
       req_timeout = 300000 \<rparr>"

text \<open>
  The synchronous part of \<^verbatim>\<open>handleAnalyze\<close>, up to the \<^verbatim>\<open>await\<close>: it either returns
  at once, or it has set \<^verbatim>\<open>loading\<close> and \<^verbatim>\<open>error\<close> and sent the request.
  The first argument is \<^verbatim>\<open>process.env.NEXT_PUBLIC_BACKEND_URL\<close>.
\<close>

datatype Started = Returned HomeState | Dispatched HomeState Request

definition handleAnalyze_begin :: "string option \<Rightarrow> HomeState \<Rightarrow> Started" where
  "handleAnalyze_begin env s =
     (case file' s of
        None \<Rightarrow> Returned s
      | Some f \<Rightarrow>
          if fileSizeMB f > of_nat MAX_FILE_SIZE_MB
          then Returned (s\<lparr>error := Some (too_large_message f)\<rparr>)
          else Dispatched (s\<lparr>loading := True, error := None\<rparr>) (analyze_request env f))"

definition upload_failed_message :: string where
  "upload_failed_message =
     cross_mark @ '' Upload Failed: Video is too large for the server (Limit: 32MB). Please compress or trim it.''"

definition server_timeout_message :: string where
  "server_timeout_message =
     cross_mark @ '' Server Timeout: The AI model took too long. Please try a shorter video (under 1 minute).''"

definition server_error_message :: "nat \<Rightarrow> string option \<Rightarrow> string" where
  "server_error_message status detail =
     cross_mark @ '' Server Error ('' @ show_nat status @ ''): '' @ or_else detail ''Unknown error occurred''"

definition network_error_message :: string where
  "network_error_message =
     cross_mark @ '' Network Error: Could not connect to backend. The server might be waking up (Cold Start). Wait 10 seconds and try again.''"

definition other_error_message :: "string \<Rightarrow> string" where
  "other_error_message m = cross_mark @ '' Error: '' @ m"

text \<open>The \<^verbatim>\<open>catch\<close> block: which message \<^verbatim>\<open>setError\<close> receives.\<close>

fun catch_message :: "AxiosError \<Rightarrow> string" where
  "catch_message (WithResponse status detail) =
     (if status = 413 then upload_failed_message
      else if status = 503 \<or> status = 504 then server_timeout_message
      else server_error_message status detail)"
| "catch_message WithRequest = network_error_message"
| "catch_message (OtherError m) = other_error_message m"

definition try_catch :: "AxiosOutcome \<Rightarrow> HomeState \<Rightarrow> HomeState" where
  "try_catch outcome s =
     (case outcome of
        Resolved d \<Rightarrow> s\<lparr>result := Some d\<rparr>
      | ResolvedEmpty \<Rightarrow> s\<lparr>result := None\<rparr>
      | Rejected e \<Rightarrow> s\<lparr>error := Some (catch_message e)\<rparr>)"

definition finally_block :: "HomeState \<Rightarrow> HomeState" where
  "finally_block s = s\<lparr>loading := False\<rparr>"

text \<open>
  The part of \<^verbatim>\<open>handleAnalyze\<close> that runs once the request has settled. The setters
  overwrite fields, so it applies to whatever the state is at that moment.
\<close>

definition handleAnalyze_settle :: "AxiosOutcome \<Rightarrow> HomeState \<Rightarrow> HomeState" where
  "handleAnalyze_settle outcome s = finally_block (try_catch outcome s)"

text \<open>One whole call: the final state, and the request if one was sent.\<close>

definition handleAnalyze :: "string option \<Rightarrow> AxiosOutcome \<Rightarrow> HomeState \<Rightarrow> HomeState \<times> Request option" where
  "handleAnalyze env outcome s =
     (case handleAnalyze_begin env s of
        Returned s' \<Rightarrow> (s', None)
      | Dispatched s' r \<Rightarrow> (handleAnalyze_settle outcome s', Some r))"

text \<open>One whole call against the network: axios turns what arrives into the outcome.\<close>

definition handleAnalyze_http :: "string option \<Rightarrow> Transport \<Rightarrow> HomeState \<Rightarrow> HomeState \<times> Request option" where
  "handleAnalyze_http env tr s = handleAnalyze env (axios_post tr) s"

section \<open>handleAnalyze, the earlier copy of the page (part\_000)\<close>

definition analysis_failed_message :: string where
  "analysis_failed_message = ''Analysis failed. Ensure backend is running.''"

definition handleAnalyze_begin_v0 :: "string option \<Rightarrow> HomeState \<Rightarrow> Started" where
  "handleAnalyze_begin_v0 env s =
     (case file' s of
        None \<Rightarrow> Returned s
      | Some f \<Rightarrow> Dispatched (s\<lparr>loading := True, error := None\<rparr>) (analyze_request env f))"

fun catch_message_v0 :: "AxiosError \<Rightarrow> string" where
  "catch_message_v0 (WithResponse status detail) = or_else detail analysis_failed_message"
| "catch_message_v0 WithRequest = analysis_failed_message"
| "catch_message_v0 (OtherError m) = analysis_failed_message"

definition handleAnalyze_settle_v0 :: "AxiosOutcome \<Rightarrow> HomeState \<Rightarrow> HomeState" where
  "handleAnalyze_settle_v0 outcome s =
     finally_block (case outcome of
        Resolved d \<Rightarrow> s\<lparr>result := Some d\<rparr>
      | ResolvedEmpty \<Rightarrow> s\<lparr>result := None\<rparr>
      | Rejected e \<Rightarrow> s\<lparr>error := Some (catch_message_v0 e)\<rparr>)"

definition handleAnalyze_v0 :: "string option \<Rightarrow> AxiosOutcome \<Rightarrow> HomeState \<Rightarrow> HomeState \<times> Request option" where
  "handleAnalyze_v0 env outcome s =
     (case handleAnalyze_begin_v0 env s of
        Returned s' \<Rightarrow> (s', None)
      | Dispatched s' r \<Rightarrow> (handleAnalyze_settle_v0 outcome s', Some r))"

section \<open>The results view (page.tsx)\<close>

text \<open>\<^verbatim>\<open>a ?? d\<close>: the default replaces an absent value only.\<close>

definition nullish :: "'a option \<Rightarrow> 'a \<Rightarrow> 'a" where
  "nullish v d = (case v of None \<Rightarrow> d | Some x \<Rightarrow> x)"

text \<open>\<^verbatim>\<open>Math.round\<close>: the nearest integer, the one towards \<open>+\<infinity>\<close> on a tie.\<close>

definition Math_round :: "number \<Rightarrow> number" where
  "Math_round x = of_int \<lfloor>x + 1 / 2\<rfloor>"

text \<open>The optional chains of the results view; \<open>\<bind>\<close> is \<^verbatim>\<open>?.\<close>.\<close>

definition content_of :: "AnalysisResult \<Rightarrow> ContentResult option" where
  "content_of r = Option.bind (pipelines r) content"

definition visual_details_of :: "AnalysisResult \<Rightarrow> VisualDetails option" where
  "visual_details_of r = Option.bind (Option.bind (pipelines r) visual) visual_details"

definition pace_of :: "AnalysisResult \<Rightarrow> number option" where
  "pace_of r = Option.bind (Option.bind (Option.bind (pipelines r) audio) audio_details) pace_bpm"

record MetricCard =
  title :: string
  score :: number
  colorClass :: string

text \<open>The props of the six \<^verbatim>\<open>MetricCard\<close> elements of the metrics grid, in order.\<close>

definition pacing_score :: "AnalysisResult \<Rightarrow> number" where
  "pacing_score r = min (Math_round (nullish (pace_of r) 0)) 160"

definition metricsGrid :: "AnalysisResult \<Rightarrow> MetricCard list" where
  "metricsGrid r =
     [ \<lparr> title = ''Clarity (Content)'',
         score = nullish (Option.bind (content_of r) content_score) 0,
         colorClass = ''bg-primary'' \<rparr>,
       \<lparr> title = ''Engagement (Visual)'',
         score = nullish (Option.bind (visual_details_of r) engagement) 0,
         colorClass = ''bg-blue-500'' \<rparr>,
       \<lparr> title = ''Tone/Variety (Audio)'',
         score = nullish (Option.bind (Option.bind (pipelines r) audio) prosody_score) 0,
         colorClass = ''bg-indigo-500'' \<rparr>,
       \<lparr> title = ''Technical Correctness'',
         score = nullish (Option.bind (content_of r) accuracy_score) 0,
         colorClass = ''bg-green-500'' \<rparr>,
       \<lparr> title = ''Confidence (Energy)'',
         score = nullish (Option.bind (visual_details_of r) energy) 0,
         colorClass = ''bg-purple-500'' \<rparr>,
       \<lparr> title = ''Pacing (BPM)'',
         score = pacing_score r,
         colorClass = ''bg-pink-500'' \<rparr> ]"

text \<open>
  The list items of the two cards on the right. An array renders its elements, so an empty
  array renders nothing; \<^verbatim>\<open>false\<close> renders nothing. \<^verbatim>\<open>xs?.map(f) || fallback\<close>
  takes the fallback only when the chain is absent: every array, also the empty one, is
  truthy.
\<close>

datatype ListItem =
    StrengthItem nat string
  | ConceptItem nat string
  | MutedItem string
  | AdvisoryItem string

definition no_strengths_text :: string where
  "no_strengths_text = ''Analysis provided no specific strengths.''"

definition great_work_text :: string where
  "great_work_text = ''Keep up the great work!''"

definition slow_down_text :: string where
  "slow_down_text = ''Try slowing down your speaking pace slightly.''"

definition strengthsList :: "AnalysisResult \<Rightarrow> ListItem list" where
  "strengthsList r =
     (case Option.bind (content_of r) key_strengths of
        Some xs \<Rightarrow> map (\<lambda>(i, strength). StrengthItem i strength) (enumerate 0 xs)
      | None \<Rightarrow> [MutedItem no_strengths_text])"

definition conceptItems :: "AnalysisResult \<Rightarrow> ListItem list" where
  "conceptItems r =
     (case Option.bind (content_of r) missing_concepts of
        Some xs \<Rightarrow> map (\<lambda>(i, concept). ConceptItem i (''Consider covering: '' @ concept)) (enumerate 0 xs)
      | None \<Rightarrow> [MutedItem great_work_text])"

definition paceAdvisory :: "AnalysisResult \<Rightarrow> ListItem list" where
  "paceAdvisory r = (if nullish (pace_of r) 0 > 150 then [AdvisoryItem slow_down_text] else [])"

definition recommendationsList :: "AnalysisResult \<Rightarrow> ListItem list" where
  "recommendationsList r = conceptItems r @ paceAdvisory r"

text \<open>
  Which of the two views the component returns: the results view as soon as \<^verbatim>\<open>result\<close>
  is set, else the upload page, whose alert shows \<^verbatim>\<open>error\<close> when a file is selected
  and the message is not empty.
\<close>

datatype View = ResultsView AnalysisResult | UploadView "string option"

definition alert :: "HomeState \<Rightarrow> string option" where
  "alert s =
     (case file' s of
        None \<Rightarrow> None
      | Some f \<Rightarrow> (case error s of None \<Rightarrow> None | Some e \<Rightarrow> if e = [] then None else Some e))"

definition render :: "HomeState \<Rightarrow> View" where
  "render s = (case result s of Some r \<Rightarrow> ResultsView r | None \<Rightarrow> UploadView (alert s))"

section \<open>The scoring core behind POST /analyze\<close>

text \<open>
  The repository's sources contain the page that calls the service, not the service.
  The definitions of this section follow the specification's sections 3, 4.4 and 4.5.
\<close>

text \<open>
  Modelled from the spec: the three pipeline kinds of section 4.1 and the error taxonomy
  of section 7.
\<close>

datatype PipelineKind = Content | Acoustic | Visual

datatype ErrorKind =
    InputError
  | TransientAnalyzerError
  | AnalyzerTimeout
  | AnalyzerRejection
  | AggregationImpossible

text \<open>
  Modelled from the spec: the PipelineOutcome of section 3, a tagged variant over
  Success(RawMetrics), Failed(ErrorKind, message) and TimedOut. The raw metrics are a
  type parameter.
\<close>

datatype 'raw PipelineOutcome = Success 'raw | Failed ErrorKind string | TimedOut

text \<open>
  Modelled from the spec: the closed set of kinds, in the order the spec lists them, and
  the bound of section 3 on a sub-score, which is always within [0,10].
\<close>

definition all_kinds :: "PipelineKind list" where
  "all_kinds = [Content, Acoustic, Visual]"

definition clamp10 :: "rat \<Rightarrow> rat" where
  "clamp10 x = max 0 (min 10 x)"

text \<open>
  Modelled from the spec: the Score Normalizer of section 4.4 with its fallback policy. A
  successful outcome gets the sub-score of its kind's formula, within [0,10]; the
  formulas themselves are the parameter \<open>formula\<close>. A Failed or TimedOut outcome gets no
  sub-score: absent, which is not the number 0.
\<close>

definition normalize :: "(PipelineKind \<Rightarrow> 'raw \<Rightarrow> rat) \<Rightarrow> PipelineKind \<Rightarrow> 'raw PipelineOutcome \<Rightarrow> rat option" where
  "normalize formula k outcome =
     (case outcome of
        Success m \<Rightarrow> Some (clamp10 (formula k m))
      | Failed e msg \<Rightarrow> None
      | TimedOut \<Rightarrow> None)"

text \<open>Modelled from the spec: the sub-scores of one submission, kind by kind.\<close>

definition sub_scores :: "(PipelineKind \<Rightarrow> 'raw \<Rightarrow> rat) \<Rightarrow> (PipelineKind \<Rightarrow> 'raw PipelineOutcome) \<Rightarrow> PipelineKind \<Rightarrow> rat option" where
  "sub_scores formula outcomes k = normalize formula k (outcomes k)"

text \<open>
  Modelled from the spec: the "missing" set of section 4.4, the kinds whose sub-score is
  absent, which the Aggregator consumes.
\<close>

definition missing :: "(PipelineKind \<Rightarrow> rat option) \<Rightarrow> PipelineKind list" where
  "missing subs = filter (\<lambda>k. subs k = None) all_kinds"

text \<open>
  Modelled from the spec: the complement of the missing set, each present kind with its
  sub-score.
\<close>

definition present :: "(PipelineKind \<Rightarrow> rat option) \<Rightarrow> (PipelineKind \<times> rat) list" where
  "present subs = concat (map (\<lambda>k. case subs k of None \<Rightarrow> [] | Some x \<Rightarrow> [(k, x)]) all_kinds)"

text \<open>
  Modelled from the spec: the Weighted Aggregator of section 4.5. The overall score is
  the sum of weight times sub-score over the pipelines that are not missing, divided by
  the sum of their weights; with all three missing it is the error AggregationImpossible.
  The value is not rounded here: the spec rounds at the presentation boundary.
\<close>

definition aggregate :: "(PipelineKind \<Rightarrow> rat) \<Rightarrow> (PipelineKind \<Rightarrow> rat option) \<Rightarrow> ErrorKind + rat" where
  "aggregate w subs =
     (let ps = present subs
      in if ps = [] then Inl AggregationImpossible
         else Inr (sum_list (map (\<lambda>(k, x). w k * x) ps) / sum_list (map (\<lambda>(k, x). w k) ps)))"

text \<open>Modelled from the spec: the default weights of section 4.5.\<close>

fun default_weights :: "PipelineKind \<Rightarrow> rat" where
  "default_weights Content = 35 / 100"
| "default_weights Acoustic = 35 / 100"
| "default_weights Visual = 30 / 100"

text \<open>
  Modelled from the spec: the Submission of section 3, with the size of its payload in
  bytes and its declared topic.
\<close>

record Submission =
  payload_size :: nat
  declared_topic :: string

text \<open>
  Modelled from the spec: the two kinds of reply of section 6, the 200 reply with the
  result object and the error reply with a status and a body \<^verbatim>\<open>{ "detail": string }\<close>.
\<close>

datatype ServerReply = OkReply AnalysisResult | ErrorReply nat string

definition size_limit_detail :: string where
  "size_limit_detail = ''payload exceeds size limit''"

text \<open>
  Modelled from the spec: the admission step of POST /analyze (sections 6 and 7). A
  payload above the size limit is answered 413 before orchestration begins, so no pipeline
  is dispatched for it. What the service does with an admitted payload (validation,
  orchestration, aggregation, assembly) is the parameter \<open>serve\<close>, which returns the reply
  and the pipeline kinds it dispatched.
\<close>

definition analyze_endpoint ::
  "nat \<Rightarrow> (Submission \<Rightarrow> ServerReply \<times> PipelineKind list) \<Rightarrow> Submission \<Rightarrow> ServerReply \<times> PipelineKind list" where
  "analyze_endpoint limit serve sub =
     (if payload_size sub > limit then (ErrorReply 413 size_limit_detail, []) else serve sub)"

text \<open>Modelled from the spec: a reply of section 6 as the HTTP response the page receives.\<close>

definition http_response :: "ServerReply \<Rightarrow> HttpResponse" where
  "http_response reply =
     (case reply of
        OkReply r \<Rightarrow> \<lparr> resp_status = 200, resp_data = Some r, resp_detail = None \<rparr>
      | ErrorReply status detail \<Rightarrow> \<lparr> resp_status = status, resp_data = None, resp_detail = Some detail \<rparr>)"

section \<open>Concrete states used below\<close>

definition initial_state :: HomeState where
  "initial_state = \<lparr> file' = None, previewUrl = None, loading = False, result = None, error = None \<rparr>"

definition small_file :: File where
  "small_file = \<lparr> file_name = ''lecture.mp4'', file_size = 5242880 \<rparr>"

definition ready_state :: HomeState where
  "ready_state = initial_state\<lparr> file' := Some small_file, previewUrl := Some ''blob:preview'' \<rparr>"

text \<open>
  The response of the specification's scenario, with the pace as a parameter:
  accuracy 8, structure 8, silence ratio 0.05, engagement 7, energy 8, and no strengths
  or missing concepts reported.
\<close>

definition scenario_result :: "number \<Rightarrow> AnalysisResult" where
  "scenario_result p =
     \<lparr> overall_score = 8,
       pipelines = Some
         \<lparr> visual = Some \<lparr> visual_score = Some (15 / 2),
                           visual_details = Some \<lparr> engagement = Some 7, energy = Some 8 \<rparr> \<rparr>,
           audio = Some \<lparr> prosody_score = Some 8,
                          audio_details = Some \<lparr> pace_bpm = Some p, silence_ratio = Some (1 / 20) \<rparr> \<rparr>,
           content = Some \<lparr> content_score = Some 8, accuracy_score = Some 8, structure_score = Some 8,
                            key_strengths = Some [], missing_concepts = Some [] \<rparr> \<rparr>,
       transcript = Some ''Today we look at recursion.'' \<rparr>"

text \<open>A response without the pipelines object.\<close>

definition bare_result :: AnalysisResult where
  "bare_result = \<lparr> overall_score = 8, pipelines = None, transcript = None \<rparr>"

definition large_file :: File where
  "large_file = \<lparr> file_name = ''lecture.mov'', file_size = 31457281 \<rparr>"

text \<open>
  Responses: one with status 201 and a result, one with status 200 and an empty body, one
  with status 422 and a detail. A service that orchestrates every admitted payload and
  answers with the bare result, and the submission of the small file.
\<close>

definition created_response :: HttpResponse where
  "created_response = \<lparr> resp_status = 201, resp_data = Some bare_result, resp_detail = None \<rparr>"

definition empty_ok_response :: HttpResponse where
  "empty_ok_response = \<lparr> resp_status = 200, resp_data = None, resp_detail = None \<rparr>"

definition unprocessable_response :: HttpResponse where
  "unprocessable_response = \<lparr> resp_status = 422, resp_data = None, resp_detail = Some ''Unsupported file'' \<rparr>"

definition example_serve :: "Submission \<Rightarrow> ServerReply \<times> PipelineKind list" where
  "example_serve sub = (OkReply bare_result, all_kinds)"

definition small_submission :: Submission where
  "small_submission = \<lparr> payload_size = 5242880, declared_topic = ''General Teaching'' \<rparr>"


text \<open>
  Outcomes of one submission in which only the content pipeline succeeded, with raw
  metrics that are already the sub-score; and sub-scores with only the visual one absent.
\<close>

fun example_outcomes :: "PipelineKind \<Rightarrow> rat PipelineOutcome" where
  "example_outcomes Content = Success 8"
| "example_outcomes Acoustic = TimedOut"
| "example_outcomes Visual = Failed TransientAnalyzerError ''service unavailable''"

definition example_formula :: "PipelineKind \<Rightarrow> rat \<Rightarrow> rat" where
  "example_formula k m = m"

fun two_present :: "PipelineKind \<Rightarrow> rat option" where
  "two_present Content = Some 9"
| "two_present Acoustic = Some 6"
| "two_present Visual = None"

section \<open>Helper facts\<close>

lemma size_limit_bytes: "(fileSizeMB f > of_nat MAX_FILE_SIZE_MB) = (31457280 < file_size f)"
proof -
  have "(of_nat (file_size f) / (1024 * 1024) > (30::rat)) = (of_nat (file_size f) > (30::rat) * (1024 * 1024))"
    by (simp add: pos_less_divide_eq)
  also have "\<dots> = (of_nat (file_size f) > (of_nat 31457280 :: rat))"
    by simp
  also have "\<dots> = (31457280 < file_size f)"
    by (simp only: of_nat_less_iff)
  finally show ?thesis
    by (simp add: fileSizeMB_def MAX_FILE_SIZE_MB_def)
qed

lemma catch_message_nonempty: "catch_message e \<noteq> []"
  by (cases e) (simp_all add: upload_failed_message_def server_timeout_message_def
      server_error_message_def network_error_message_def other_error_message_def cross_mark_def)

lemma begin_with_file:
  assumes "file' s = Some f" and "\<not> fileSizeMB f > of_nat MAX_FILE_SIZE_MB"
  shows "handleAnalyze_begin env s = Dispatched (s\<lparr>loading := True, error := None\<rparr>) (analyze_request env f)"
  using assms by (simp add: handleAnalyze_begin_def)

lemma ready_state_file: "file' ready_state = Some small_file"
  by (simp add: ready_state_def initial_state_def)

lemma ready_state_result: "result ready_state = None"
  by (simp add: ready_state_def initial_state_def)

lemma small_file_fits: "\<not> fileSizeMB small_file > of_nat MAX_FILE_SIZE_MB"
  by (simp add: size_limit_bytes small_file_def)

lemma large_file_oversized: "fileSizeMB large_file > of_nat MAX_FILE_SIZE_MB"
  by (simp add: size_limit_bytes large_file_def)

lemma show_nat_422: "show_nat 422 = ''422''"
  by code_simp

lemma too_large_message_nonempty: "too_large_message f \<noteq> []"
  by (simp add: too_large_message_def warning_sign_def)

lemma precheck_rejects:
  assumes "file' s = Some f" and "fileSizeMB f > of_nat MAX_FILE_SIZE_MB"
  shows "handleAnalyze env outcome s = (s\<lparr>error := Some (too_large_message f)\<rparr>, None)"
  using assms by (simp add: handleAnalyze_def handleAnalyze_begin_def)

lemma settled_rejected:
  assumes "file' s = Some f" and "\<not> fileSizeMB f > of_nat MAX_FILE_SIZE_MB"
  shows "fst (handleAnalyze env (Rejected e) s) = s\<lparr>loading := False, error := Some (catch_message e)\<rparr>"
  by (simp add: handleAnalyze_def begin_with_file [OF assms] handleAnalyze_settle_def
      try_catch_def finally_block_def)

lemma settled_resolved:
  assumes "file' s = Some f" and "\<not> fileSizeMB f > of_nat MAX_FILE_SIZE_MB"
  shows "fst (handleAnalyze env (Resolved d) s) = s\<lparr>loading := False, error := None, result := Some d\<rparr>"
  by (simp add: handleAnalyze_def begin_with_file [OF assms] handleAnalyze_settle_def
      try_catch_def finally_block_def)

lemma settled_resolved_empty:
  assumes "file' s = Some f" and "\<not> fileSizeMB f > of_nat MAX_FILE_SIZE_MB"
  shows "fst (handleAnalyze env ResolvedEmpty s) = s\<lparr>loading := False, error := None, result := None\<rparr>"
  by (simp add: handleAnalyze_def begin_with_file [OF assms] handleAnalyze_settle_def
      try_catch_def finally_block_def)

lemma render_error:
  assumes "file' s = Some f" and "result s = None" and "m \<noteq> []"
  shows "render (s\<lparr>loading := b, error := Some m\<rparr>) = UploadView (Some m)"
    and "render (s\<lparr>error := Some m\<rparr>) = UploadView (Some m)"
  using assms by (simp_all add: render_def alert_def)

lemma catch_message_by_status:
  "catch_message (WithResponse status detail)
     = (if status = 413 then upload_failed_message
        else if status = 503 \<or> status = 504 then server_timeout_message
        else cross_mark @ '' Server Error ('' @ show_nat status @ ''): ''
               @ or_else detail ''Unknown error occurred'')"
  by (simp add: server_error_message_def)

lemma messages_differ:
  "upload_failed_message \<noteq> server_timeout_message
   \<and> upload_failed_message \<noteq> server_error_message status detail
   \<and> server_timeout_message \<noteq> server_error_message status detail"
  by (simp add: upload_failed_message_def server_timeout_message_def server_error_message_def)

lemma present_skips_absent:
  assumes "subs k = None"
  shows "(k, x) \<notin> set (present subs)"
  using assms by (cases k) (auto simp: present_def all_kinds_def split: option.splits)

lemma aggregate_ignores_absent_weight:
  assumes "subs k = None"
  shows "aggregate (w(k := v)) subs = aggregate w subs"
proof -
  have e1: "map (\<lambda>(k', x). (w(k := v)) k' * x) (present subs) = map (\<lambda>(k', x). w k' * x) (present subs)"
    using present_skips_absent [of subs k, OF assms] by (auto simp: fun_upd_def)
  have e2: "map (\<lambda>(k', x). (w(k := v)) k') (present subs) = map (\<lambda>(k', x). w k') (present subs)"
    using present_skips_absent [of subs k, OF assms] by (auto simp: fun_upd_def)
  show ?thesis
    by (simp only: aggregate_def Let_def e1 e2)
qed

section \<open>Properties of handleAnalyze\<close>

text \<open>
  C9. When no file is selected, \<^verbatim>\<open>handleAnalyze\<close> does nothing: no request is sent and
  the state (file, previewUrl, loading, result, error) is returned as it was. This holds
  for the page and for its earlier copy.
\<close>

theorem handleAnalyze_no_file_noop:
  assumes "file' s = None"
  shows "handleAnalyze env outcome s = (s, None) \<and> handleAnalyze_v0 env outcome s = (s, None)"
  using assms
  by (simp add: handleAnalyze_def handleAnalyze_begin_def handleAnalyze_v0_def handleAnalyze_begin_v0_def)

theorem handleAnalyze_no_file_noop_witness:
  "file' initial_state = None
   \<and> handleAnalyze None (Rejected WithRequest) initial_state = (initial_state, None)
   \<and> handleAnalyze_v0 None (Rejected WithRequest) initial_state = (initial_state, None)"
  using handleAnalyze_no_file_noop [of initial_state None "Rejected WithRequest"]
  by (simp add: initial_state_def)

text \<open>
  C5. A payload above the size limit is answered with the size-limit error, status 413,
  before orchestration begins: the reply does not come from the orchestrating part of the
  service and no pipeline is dispatched. The page shows that reply as its size-limit error
  and produces no result. The page also has a check of its own: a file above 30 MB is
  rejected with a size-limit message that is shown, and no request is sent at all.
\<close>

theorem oversized_payload_413_before_orchestration:
  assumes "limit < payload_size sub"
  shows "analyze_endpoint limit serve sub = (ErrorReply 413 size_limit_detail, [])
       \<and> snd (analyze_endpoint limit serve sub) = []
       \<and> (file' s = Some f \<and> \<not> fileSizeMB f > of_nat MAX_FILE_SIZE_MB \<and> result s = None \<longrightarrow>
            result (fst (handleAnalyze_http env
                (Answered (http_response (fst (analyze_endpoint limit serve sub)))) s)) = None
            \<and> render (fst (handleAnalyze_http env
                (Answered (http_response (fst (analyze_endpoint limit serve sub)))) s))
                = UploadView (Some upload_failed_message))
       \<and> (file' s = Some f \<and> fileSizeMB f > of_nat MAX_FILE_SIZE_MB \<and> result s = None \<longrightarrow>
            handleAnalyze_http env tr s = (s\<lparr>error := Some (too_large_message f)\<rparr>, None)
            \<and> render (fst (handleAnalyze_http env tr s)) = UploadView (Some (too_large_message f)))"
proof -
  have srv: "analyze_endpoint limit serve sub = (ErrorReply 413 size_limit_detail, [])"
    using assms by (simp add: analyze_endpoint_def)
  have ax: "axios_post (Answered (http_response (ErrorReply 413 size_limit_detail)))
        = Rejected (WithResponse 413 (Some size_limit_detail))"
    by (simp add: axios_post_def http_response_def validateStatus_def)
  have shown: "result (fst (handleAnalyze_http env
                (Answered (http_response (fst (analyze_endpoint limit serve sub)))) s)) = None
            \<and> render (fst (handleAnalyze_http env
                (Answered (http_response (fst (analyze_endpoint limit serve sub)))) s))
                = UploadView (Some upload_failed_message)"
    if h: "file' s = Some f" "\<not> fileSizeMB f > of_nat MAX_FILE_SIZE_MB" "result s = None"
  proof -
    have st: "fst (handleAnalyze_http env
                (Answered (http_response (fst (analyze_endpoint limit serve sub)))) s)
              = s\<lparr>loading := False, error := Some upload_failed_message\<rparr>"
      using settled_rejected [OF h(1,2), of env "WithResponse 413 (Some size_limit_detail)"]
      by (simp add: handleAnalyze_http_def srv ax)
    have ne: "upload_failed_message \<noteq> []"
      by (simp add: upload_failed_message_def cross_mark_def)
    show ?thesis
      using h(3) render_error(1) [OF h(1) h(3) ne, of False] by (simp add: st)
  qed
  have own: "handleAnalyze_http env tr s = (s\<lparr>error := Some (too_large_message f)\<rparr>, None)
            \<and> render (fst (handleAnalyze_http env tr s)) = UploadView (Some (too_large_message f))"
    if h: "file' s = Some f" "fileSizeMB f > of_nat MAX_FILE_SIZE_MB" "result s = None"
    using precheck_rejects [OF h(1,2), of env "axios_post tr"]
      render_error(2) [OF h(1) h(3) too_large_message_nonempty [of f]]
    by (simp add: handleAnalyze_http_def)
  have none: "snd (analyze_endpoint limit serve sub) = []"
    by (simp add: srv)
  from srv none shown own show ?thesis by blast
qed

theorem oversized_payload_413_before_orchestration_witness:
  "(1048576::nat) < payload_size small_submission
   \<and> analyze_endpoint 1048576 example_serve small_submission = (ErrorReply 413 size_limit_detail, [])
   \<and> example_serve small_submission = (OkReply bare_result, [Content, Acoustic, Visual])
   \<and> file' ready_state = Some small_file \<and> \<not> fileSizeMB small_file > of_nat MAX_FILE_SIZE_MB
   \<and> result ready_state = None
   \<and> render (fst (handleAnalyze_http None
        (Answered (http_response (fst (analyze_endpoint 1048576 example_serve small_submission)))) ready_state))
       = UploadView (Some upload_failed_message)
   \<and> file' (ready_state\<lparr>file' := Some large_file\<rparr>) = Some large_file
   \<and> fileSizeMB large_file > of_nat MAX_FILE_SIZE_MB
   \<and> result (ready_state\<lparr>file' := Some large_file\<rparr>) = None
   \<and> snd (handleAnalyze_http None Unanswered (ready_state\<lparr>file' := Some large_file\<rparr>)) = None
   \<and> render (fst (handleAnalyze_http None Unanswered (ready_state\<lparr>file' := Some large_file\<rparr>)))
       = UploadView (Some (too_large_message large_file))"
proof -
  have big: "(1048576::nat) < payload_size small_submission"
    by (simp add: small_submission_def)
  have ex: "example_serve small_submission = (OkReply bare_result, [Content, Acoustic, Visual])"
    by (simp add: example_serve_def all_kinds_def)
  have lf: "file' (ready_state\<lparr>file' := Some large_file\<rparr>) = Some large_file"
    by simp
  have lr: "result (ready_state\<lparr>file' := Some large_file\<rparr>) = None"
    by (simp add: ready_state_result)
  have sent: "snd (handleAnalyze_http None Unanswered (ready_state\<lparr>file' := Some large_file\<rparr>)) = None"
    using oversized_payload_413_before_orchestration
      [OF big, of example_serve "ready_state\<lparr>file' := Some large_file\<rparr>" large_file None Unanswered]
      lf lr large_file_oversized
    by simp
  from oversized_payload_413_before_orchestration
      [OF big, of example_serve ready_state small_file None Unanswered]
    oversized_payload_413_before_orchestration
      [OF big, of example_serve "ready_state\<lparr>file' := Some large_file\<rparr>" large_file None Unanswered]
    big ex ready_state_file small_file_fits ready_state_result lf lr large_file_oversized sent
  show ?thesis by blast
qed

text \<open>
  C6. Every request that \<^verbatim>\<open>handleAnalyze\<close> sends carries exactly one \<^verbatim>\<open>topic\<close>
  field, and its value is the string "General Teaching": the page has no input for a
  topic, so the user never supplies one. This holds for the page and for its earlier copy.
\<close>

theorem request_topic_general_teaching:
  assumes "snd (handleAnalyze env outcome s) = Some r \<or> snd (handleAnalyze_v0 env outcome s) = Some r"
  shows "filter (\<lambda>(k, v). k = ''topic'') (req_formData r) = [(''topic'', StringValue ''General Teaching'')]"
  using assms
  by (auto simp: handleAnalyze_def handleAnalyze_begin_def handleAnalyze_v0_def handleAnalyze_begin_v0_def
      analyze_request_def split: option.splits if_splits)

theorem request_topic_general_teaching_witness:
  "snd (handleAnalyze None (Rejected WithRequest) ready_state) = Some (analyze_request None small_file)
   \<and> filter (\<lambda>(k, v). k = ''topic'') (req_formData (analyze_request None small_file))
       = [(''topic'', StringValue ''General Teaching'')]"
proof -
  have h: "snd (handleAnalyze None (Rejected WithRequest) ready_state) = Some (analyze_request None small_file)"
    by (simp add: handleAnalyze_def begin_with_file [OF ready_state_file small_file_fits])
  from request_topic_general_teaching
      [of None "Rejected WithRequest" ready_state "analyze_request None small_file"] h
  show ?thesis by simp
qed

text \<open>
  C7, as the specification states it: on any non-200 response the page shows an error and
  produces no result. A response with status 201 fulfils the promise, so the page stores
  its body as the result and shows the results view with no error. And on a 200 whose body
  is empty the page shows neither a result nor an error.
\<close>

theorem status_201_shows_result_without_error:
  "resp_status created_response \<noteq> 200
   \<and> render (fst (handleAnalyze_http None (Answered created_response) ready_state)) = ResultsView bare_result
   \<and> error (fst (handleAnalyze_http None (Answered created_response) ready_state)) = None
   \<and> resp_status empty_ok_response = 200
   \<and> render (fst (handleAnalyze_http None (Answered empty_ok_response) ready_state)) = UploadView None"
proof -
  have a: "axios_post (Answered created_response) = Resolved bare_result"
    by (simp add: axios_post_def created_response_def validateStatus_def)
  have b: "axios_post (Answered empty_ok_response) = ResolvedEmpty"
    by (simp add: axios_post_def empty_ok_response_def validateStatus_def)
  have s1: "resp_status created_response \<noteq> 200"
    by (simp add: created_response_def)
  have s2: "resp_status empty_ok_response = 200"
    by (simp add: empty_ok_response_def)
  have st1: "fst (handleAnalyze_http None (Answered created_response) ready_state)
        = ready_state\<lparr>loading := False, error := None, result := Some bare_result\<rparr>"
    using settled_resolved [OF ready_state_file small_file_fits, of None bare_result]
    by (simp add: handleAnalyze_http_def a)
  have st2: "fst (handleAnalyze_http None (Answered empty_ok_response) ready_state)
        = ready_state\<lparr>loading := False, error := None, result := None\<rparr>"
    using settled_resolved_empty [OF ready_state_file small_file_fits, of None]
    by (simp add: handleAnalyze_http_def b)
  show ?thesis
    using s1 s2 ready_state_file by (simp add: st1 st2 render_def alert_def)
qed

text \<open>
  C7, amended. A call made from the upload page (a file that fits is selected, no result
  yet) that gets a response ends in states that cannot be confused. When the status is
  outside 200 to 299, no result is produced and the upload page shows an error: a fixed
  message for 413, another fixed message for 503 and 504, and for every other status a
  message made of the status and the \<^verbatim>\<open>detail\<close> field (or "Unknown error occurred"
  without one); the three messages differ from each other. When the status is within 200
  to 299 and the body is a result, the result is stored, the error is cleared and the
  results view is shown; with an empty body the upload page is shown with no error.
\<close>

theorem error_iff_status_outside_2xx:
  assumes "file' s = Some f" and "\<not> fileSizeMB f > of_nat MAX_FILE_SIZE_MB" and "result s = None"
  shows "(\<not> validateStatus (resp_status r) \<longrightarrow>
            result (fst (handleAnalyze_http env (Answered r) s)) = None
            \<and> error (fst (handleAnalyze_http env (Answered r) s))
                = Some (if resp_status r = 413 then upload_failed_message
                        else if resp_status r = 503 \<or> resp_status r = 504 then server_timeout_message
                        else cross_mark @ '' Server Error ('' @ show_nat (resp_status r) @ ''): ''
                               @ or_else (resp_detail r) ''Unknown error occurred'')
            \<and> render (fst (handleAnalyze_http env (Answered r) s))
                = UploadView (error (fst (handleAnalyze_http env (Answered r) s))))
       \<and> (validateStatus (resp_status r) \<and> resp_data r = Some d \<longrightarrow>
            result (fst (handleAnalyze_http env (Answered r) s)) = Some d
            \<and> error (fst (handleAnalyze_http env (Answered r) s)) = None
            \<and> render (fst (handleAnalyze_http env (Answered r) s)) = ResultsView d)
       \<and> (validateStatus (resp_status r) \<and> resp_data r = None \<longrightarrow>
            result (fst (handleAnalyze_http env (Answered r) s)) = None
            \<and> error (fst (handleAnalyze_http env (Answered r) s)) = None
            \<and> render (fst (handleAnalyze_http env (Answered r) s)) = UploadView None)
       \<and> upload_failed_message \<noteq> server_timeout_message
       \<and> upload_failed_message \<noteq> server_error_message status detail
       \<and> server_timeout_message \<noteq> server_error_message status detail"
proof -
  let ?e = "WithResponse (resp_status r) (resp_detail r)"
  have bad: "result (fst (handleAnalyze_http env (Answered r) s)) = None
            \<and> error (fst (handleAnalyze_http env (Answered r) s)) = Some (catch_message ?e)
            \<and> render (fst (handleAnalyze_http env (Answered r) s))
                = UploadView (error (fst (handleAnalyze_http env (Answered r) s)))"
    if h: "\<not> validateStatus (resp_status r)"
  proof -
    have st: "fst (handleAnalyze_http env (Answered r) s) = s\<lparr>loading := False, error := Some (catch_message ?e)\<rparr>"
      using h settled_rejected [OF assms(1,2), of env ?e]
      by (simp add: handleAnalyze_http_def axios_post_def)
    show ?thesis
      using assms(3) render_error(1) [OF assms(1) assms(3) catch_message_nonempty [of ?e], of False]
      by (simp add: st del: catch_message.simps)
  qed
  have good: "result (fst (handleAnalyze_http env (Answered r) s)) = Some d
            \<and> error (fst (handleAnalyze_http env (Answered r) s)) = None
            \<and> render (fst (handleAnalyze_http env (Answered r) s)) = ResultsView d"
    if h: "validateStatus (resp_status r)" "resp_data r = Some d"
    using h settled_resolved [OF assms(1,2), of env d]
    by (simp add: handleAnalyze_http_def axios_post_def render_def)
  have empty: "result (fst (handleAnalyze_http env (Answered r) s)) = None
            \<and> error (fst (handleAnalyze_http env (Answered r) s)) = None
            \<and> render (fst (handleAnalyze_http env (Answered r) s)) = UploadView None"
    if h: "validateStatus (resp_status r)" "resp_data r = None"
    using h assms(1) settled_resolved_empty [OF assms(1,2), of env]
    by (simp add: handleAnalyze_http_def axios_post_def render_def alert_def)
  from bad good empty messages_differ [of status detail]
    catch_message_by_status [of "resp_status r" "resp_detail r"]
  show ?thesis by (simp del: catch_message.simps)
qed

theorem error_iff_status_outside_2xx_witness:
  "file' ready_state = Some small_file \<and> \<not> fileSizeMB small_file > of_nat MAX_FILE_SIZE_MB
   \<and> result ready_state = None
   \<and> \<not> validateStatus (resp_status unprocessable_response)
   \<and> render (fst (handleAnalyze_http None (Answered unprocessable_response) ready_state))
       = UploadView (Some (cross_mark @ '' Server Error (422): Unsupported file''))
   \<and> validateStatus (resp_status created_response)
   \<and> resp_data created_response = Some bare_result
   \<and> render (fst (handleAnalyze_http None (Answered created_response) ready_state)) = ResultsView bare_result
   \<and> validateStatus (resp_status empty_ok_response)
   \<and> resp_data empty_ok_response = None
   \<and> render (fst (handleAnalyze_http None (Answered empty_ok_response) ready_state)) = UploadView None"
proof -
  have u: "\<not> validateStatus (resp_status unprocessable_response)"
    "resp_status unprocessable_response = 422"
    "resp_detail unprocessable_response = Some ''Unsupported file''"
    by (simp_all add: unprocessable_response_def validateStatus_def)
  have c: "validateStatus (resp_status created_response)" "resp_data created_response = Some bare_result"
    by (simp_all add: created_response_def validateStatus_def)
  have e: "validateStatus (resp_status empty_ok_response)" "resp_data empty_ok_response = None"
    by (simp_all add: empty_ok_response_def validateStatus_def)
  from error_iff_status_outside_2xx [OF ready_state_file small_file_fits ready_state_result,
      of unprocessable_response None bare_result 422 None]
    error_iff_status_outside_2xx [OF ready_state_file small_file_fits ready_state_result,
      of created_response None bare_result 422 None]
    error_iff_status_outside_2xx [OF ready_state_file small_file_fits ready_state_result,
      of empty_ok_response None bare_result 422 None]
    u c e ready_state_file small_file_fits ready_state_result
  show ?thesis
    by (simp add: or_else_def show_nat_422)
qed

text \<open>
  C10. Once \<^verbatim>\<open>handleAnalyze\<close> has sent a request, \<^verbatim>\<open>loading\<close> is true; when the
  request settles, whatever the outcome (a response, an error response, no answer, any
  other error) and whatever the state has become meanwhile, the \<^verbatim>\<open>finally\<close> branch
  leaves \<^verbatim>\<open>loading\<close> false. This holds for the page and for its earlier copy.
\<close>

theorem loading_reset_when_settled:
  assumes "handleAnalyze_begin env s = Dispatched s' r \<or> handleAnalyze_begin_v0 env s = Dispatched s' r"
  shows "loading s' = True
       \<and> loading (handleAnalyze_settle outcome s') = False
       \<and> loading (handleAnalyze_settle_v0 outcome s') = False
       \<and> loading (handleAnalyze_settle outcome t) = False
       \<and> loading (handleAnalyze_settle_v0 outcome t) = False"
  using assms
  by (auto simp: handleAnalyze_begin_def handleAnalyze_begin_v0_def handleAnalyze_settle_def
      handleAnalyze_settle_v0_def finally_block_def split: option.splits if_splits)

theorem loading_reset_when_settled_witness:
  "handleAnalyze_begin None ready_state
     = Dispatched (ready_state\<lparr>loading := True, error := None\<rparr>) (analyze_request None small_file)
   \<and> loading (ready_state\<lparr>loading := True, error := None\<rparr>) = True
   \<and> loading (handleAnalyze_settle (Rejected (OtherError ''boom'')) (ready_state\<lparr>loading := True, error := None\<rparr>)) = False
   \<and> loading (handleAnalyze_settle (Resolved bare_result) (ready_state\<lparr>loading := True, error := None\<rparr>)) = False"
proof -
  have b: "handleAnalyze_begin None ready_state
     = Dispatched (ready_state\<lparr>loading := True, error := None\<rparr>) (analyze_request None small_file)"
    by (rule begin_with_file [OF ready_state_file small_file_fits])
  from loading_reset_when_settled
      [of None ready_state _ _ "Rejected (OtherError ''boom'')" ready_state, OF disjI1, OF b]
    loading_reset_when_settled
      [of None ready_state _ _ "Resolved bare_result" ready_state, OF disjI1, OF b] b
  show ?thesis by simp
qed

section \<open>Properties of the results view\<close>

text \<open>
  C8. The text "Analysis provided no specific strengths." is among the rendered strengths
  exactly when the \<^verbatim>\<open>key_strengths\<close> chain is absent, and "Keep up the great work!"
  is among the rendered recommendations exactly when the \<^verbatim>\<open>missing_concepts\<close> chain
  is absent. When the field is present and empty, neither items nor the fallback text are
  rendered for it.
\<close>

theorem fallback_text_iff_field_absent:
  "(MutedItem no_strengths_text \<in> set (strengthsList r)) = (Option.bind (content_of r) key_strengths = None)
   \<and> (MutedItem great_work_text \<in> set (recommendationsList r)) = (Option.bind (content_of r) missing_concepts = None)
   \<and> (Option.bind (content_of r) key_strengths = Some [] \<longrightarrow> strengthsList r = [])
   \<and> (Option.bind (content_of r) missing_concepts = Some [] \<longrightarrow> conceptItems r = [] \<and> recommendationsList r = paceAdvisory r)"
  by (auto simp: strengthsList_def recommendationsList_def conceptItems_def paceAdvisory_def
      split: option.splits)

theorem fallback_text_iff_field_absent_witness:
  "Option.bind (content_of (scenario_result 120)) key_strengths = Some []
   \<and> Option.bind (content_of (scenario_result 120)) missing_concepts = Some []
   \<and> strengthsList (scenario_result 120) = []
   \<and> recommendationsList (scenario_result 120) = []
   \<and> strengthsList bare_result = [MutedItem no_strengths_text]
   \<and> recommendationsList bare_result = [MutedItem great_work_text]"
proof -
  have a: "Option.bind (content_of (scenario_result 120)) key_strengths = Some []"
    by (simp add: content_of_def scenario_result_def)
  have b: "Option.bind (content_of (scenario_result 120)) missing_concepts = Some []"
    by (simp add: content_of_def scenario_result_def)
  have p: "paceAdvisory (scenario_result 120) = []"
    by (simp add: paceAdvisory_def pace_of_def scenario_result_def nullish_def)
  have c: "strengthsList bare_result = [MutedItem no_strengths_text]"
    by (simp add: strengthsList_def content_of_def bare_result_def)
  have d: "recommendationsList bare_result = [MutedItem great_work_text]"
    by (simp add: recommendationsList_def conceptItems_def paceAdvisory_def pace_of_def
        content_of_def bare_result_def nullish_def)
  from fallback_text_iff_field_absent [of "scenario_result 120"] a b p c d show ?thesis by simp
qed

text \<open>
  C3, as the specification states it: in the scenario with a pace of 150 BPM the advice
  to slow down is given. The page does not give it there: 150 is not above 150.
\<close>

theorem no_pace_advisory_at_150:
  "AdvisoryItem slow_down_text \<notin> set (recommendationsList (scenario_result 150))"
  by (simp add: recommendationsList_def conceptItems_def paceAdvisory_def pace_of_def content_of_def
      scenario_result_def nullish_def)

text \<open>
  C3, amended. The advice to slow down is given exactly when the pace, taken as 0 when
  absent, is strictly above 150: in the scenario it is not given at 150 and it is given
  at 151.
\<close>

theorem pace_advisory_strictly_above_150:
  "(AdvisoryItem slow_down_text \<in> set (recommendationsList r)) = (nullish (pace_of r) 0 > 150)
   \<and> (AdvisoryItem slow_down_text \<in> set (recommendationsList r))
       = (case pace_of r of None \<Rightarrow> False | Some p \<Rightarrow> 150 < p)
   \<and> paceAdvisory (scenario_result 150) = []
   \<and> paceAdvisory (scenario_result 151) = [AdvisoryItem slow_down_text]"
  by (auto simp: recommendationsList_def conceptItems_def paceAdvisory_def nullish_def
      pace_of_def scenario_result_def split: option.splits)

text \<open>
  C2. The score that the page computes for pacing is the pace rounded to an integer and
  capped at 160. At 120 BPM, which the comment above the card calls ideal (10/10), the
  card's score is 120 and not 10; at 100 and 140 it is 100 and 140; at 60 and 180 it is
  60 and 160, not 0; up to 160 the score grows with the pace.
\<close>

theorem pacing_card_score_is_capped_pace:
  "pacing_score (scenario_result 120) = 120
   \<and> pacing_score (scenario_result 100) = 100
   \<and> pacing_score (scenario_result 140) = 140
   \<and> pacing_score (scenario_result 60) = 60
   \<and> pacing_score (scenario_result 180) = 160
   \<and> score (metricsGrid (scenario_result 120) ! 5) = 120"
  by (simp add: metricsGrid_def pacing_score_def Math_round_def pace_of_def scenario_result_def nullish_def
      floor_eq_iff)

section \<open>Properties of the scoring core\<close>

text \<open>
  C1. A pipeline whose outcome is Failed or TimedOut has no sub-score: the absent state,
  which is not the score 0. Its kind is in the missing set, and the aggregate is the same
  whatever weight that kind has, so the pipeline is left out of the weighted mean, not
  counted as a 0. In the page, the response is stored as it arrives; a 0 appears only
  where the metrics grid reads an absent field through \<^verbatim>\<open>?? 0\<close>.
\<close>

theorem failed_pipeline_is_absent_not_zero:
  assumes "outcomes k = Failed e msg \<or> outcomes k = TimedOut"
  shows "sub_scores formula outcomes k = None
       \<and> sub_scores formula outcomes k \<noteq> Some 0
       \<and> k \<in> set (missing (sub_scores formula outcomes))
       \<and> aggregate (w(k := v)) (sub_scores formula outcomes) = aggregate w (sub_scores formula outcomes)
       \<and> result (handleAnalyze_settle (Resolved d) s) = Some d
       \<and> (pipelines r = None \<longrightarrow> map score (metricsGrid r) = [0, 0, 0, 0, 0, 0])
       \<and> (Option.bind (pipelines r) audio = None \<longrightarrow>
            score (metricsGrid r ! 2) = 0 \<and> score (metricsGrid r ! 5) = 0)"
proof -
  have n: "sub_scores formula outcomes k = None"
    using assms by (auto simp: sub_scores_def normalize_def)
  have m: "k \<in> set (missing (sub_scores formula outcomes))"
    using n by (cases k) (simp_all add: missing_def all_kinds_def)
  have a: "aggregate (w(k := v)) (sub_scores formula outcomes) = aggregate w (sub_scores formula outcomes)"
    by (rule aggregate_ignores_absent_weight [of "sub_scores formula outcomes" k, OF n])
  have st: "result (handleAnalyze_settle (Resolved d) s) = Some d"
    by (simp add: handleAnalyze_settle_def try_catch_def finally_block_def)
  have g: "pipelines r = None \<longrightarrow> map score (metricsGrid r) = [0, 0, 0, 0, 0, 0]"
    by (simp add: metricsGrid_def pacing_score_def content_of_def visual_details_of_def pace_of_def
        nullish_def Math_round_def floor_eq_iff)
  have h: "Option.bind (pipelines r) audio = None \<longrightarrow>
            score (metricsGrid r ! 2) = 0 \<and> score (metricsGrid r ! 5) = 0"
    by (simp add: metricsGrid_def pacing_score_def pace_of_def nullish_def Math_round_def floor_eq_iff)
  from n m a st g h show ?thesis by simp
qed

theorem failed_pipeline_is_absent_not_zero_witness:
  "(example_outcomes Acoustic = Failed AnalyzerTimeout [] \<or> example_outcomes Acoustic = TimedOut)
   \<and> sub_scores example_formula example_outcomes Acoustic = None
   \<and> missing (sub_scores example_formula example_outcomes) = [Acoustic, Visual]
   \<and> aggregate default_weights (sub_scores example_formula example_outcomes) = Inr 8
   \<and> aggregate default_weights ((sub_scores example_formula example_outcomes)(Acoustic := Some 0, Visual := Some 0))
       = Inr (14 / 5)
   \<and> pipelines bare_result = None
   \<and> map score (metricsGrid bare_result) = [0, 0, 0, 0, 0, 0]"
proof -
  have o: "example_outcomes Acoustic = Failed AnalyzerTimeout [] \<or> example_outcomes Acoustic = TimedOut"
    by simp
  have p: "pipelines bare_result = None"
    by (simp add: bare_result_def)
  have ms: "missing (sub_scores example_formula example_outcomes) = [Acoustic, Visual]"
    by (simp add: missing_def all_kinds_def sub_scores_def normalize_def)
  have ag: "aggregate default_weights (sub_scores example_formula example_outcomes) = Inr 8"
    by (simp add: aggregate_def present_def all_kinds_def sub_scores_def normalize_def
        example_formula_def clamp10_def)
  have ag0: "aggregate default_weights
       ((sub_scores example_formula example_outcomes)(Acoustic := Some 0, Visual := Some 0)) = Inr (14 / 5)"
    by (simp add: aggregate_def present_def all_kinds_def sub_scores_def normalize_def
        example_formula_def clamp10_def)
  from failed_pipeline_is_absent_not_zero
      [of example_outcomes Acoustic AnalyzerTimeout "[]" example_formula default_weights 0
        bare_result initial_state bare_result, OF o] o p ms ag ag0
  show ?thesis by simp
qed

text \<open>
  C4. When exactly one pipeline is missing and the two present ones carry weight, the
  overall score is the weighted mean of the two present sub-scores over their own
  weights: the sum of weight times sub-score divided by the sum of the two weights. With
  the default weights and the visual pipeline missing, that is the simple average of the
  content and acoustic sub-scores.
\<close>

theorem one_missing_weighted_mean_of_two:
  assumes "k0 \<noteq> k1" and "k0 \<noteq> k2" and "k1 \<noteq> k2"
    and "subs k0 = None" and "subs k1 = Some a" and "subs k2 = Some b"
    and "w k1 + w k2 \<noteq> 0"
  shows "aggregate w subs = Inr ((w k1 * a + w k2 * b) / (w k1 + w k2))
       \<and> missing subs = [k0]
       \<and> (k0 = Visual \<longrightarrow> aggregate default_weights subs = Inr ((a + b) / 2))"
  using assms
  by (cases k0; cases k1; cases k2)
    (simp_all add: aggregate_def present_def all_kinds_def missing_def add.commute)

theorem one_missing_weighted_mean_of_two_witness:
  "Visual \<noteq> Content \<and> Visual \<noteq> Acoustic \<and> Content \<noteq> Acoustic
   \<and> two_present Visual = None \<and> two_present Content = Some 9 \<and> two_present Acoustic = Some 6
   \<and> default_weights Content + default_weights Acoustic \<noteq> 0
   \<and> aggregate default_weights two_present = Inr (15 / 2)
   \<and> missing two_present = [Visual]"
  using one_missing_weighted_mean_of_two [of Visual Content Acoustic two_present 9 6 default_weights]
  by simp

end
